theory Spec2Isabelle
  imports Main
begin

section \<open>The posts controller: data model\<close>

text \<open>
  A shallow embedding of \<^verbatim>\<open>src/controllers/posts-controller.ts\<close>. The three mongoose
  models are collections of documents, kept as lists in insertion order. Identifiers
  (\<^verbatim>\<open>ObjectId\<close>s, compared through their string form in the source) are strings.
\<close>

type_synonym oid = string

text \<open>
  Coordinates come out of the geocoder and are only stored; the controller never
  computes with them.
\<close>

record coords =
  lat :: int
  lng :: int

text \<open>The fields of a user document that the controller reads or writes.\<close>

record user =
  user_id :: oid
  posts :: "oid list"
  comments :: "oid list"

text \<open>
  \<^verbatim>\<open>createDate\<close> is an instant (\<^verbatim>\<open>Date.now()\<close>, milliseconds), written by the source
  in ISO form, which orders as the instants do.
\<close>

record post =
  post_id :: oid
  title :: string
  description :: string
  creatorId :: oid
  address :: string
  coordinates :: coords
  createDate :: nat
  image_loc :: "string option"
  post_comments :: "oid list"

record comment =
  comment_id :: oid
  comment_creatorId :: oid
  comment_createDate :: nat
  comment_text :: string
  comment_post :: oid

record store =
  UserModel :: "user list"
  PostModel :: "post list"
  CommentModel :: "comment list"

text \<open>
  What a handler can hand to \<^verbatim>\<open>next\<close>: an \<^verbatim>\<open>HttpError\<close> with its message and status
  code, or a \<^verbatim>\<open>TypeError\<close> that escapes the handler (a property read on \<^verbatim>\<open>null\<close>
  outside every \<^verbatim>\<open>try\<close>).
\<close>

datatype err = HttpError string string | TypeError

text \<open>
  The calls a handler makes to its collaborators, in the order it makes them.
\<close>

datatype event =
    Geocode string
  | UserFindById oid
  | PostFindById oid
  | PostFindByIdPopulate oid
  | PostFind
  | StartSession
  | PostSave oid
  | UserSave oid
  | CommentSave oid
  | PostRemove oid
  | CommitTransaction

text \<open>
  The world a handler runs in: the committed store \<open>db\<close>, the log of collaborator calls,
  and an oracle \<open>faults\<close> read once per awaited store call (\<open>True\<close>: that call rejects;
  an exhausted oracle means no further failure).
\<close>

record world =
  db :: store
  trace :: "event list"
  faults :: "bool list"

text \<open>
  The request as the handlers see it: \<open>valid\<close> is \<^verbatim>\<open>validationResult(req).isEmpty()\<close>,
  \<open>userId\<close> is \<^verbatim>\<open>req.userData.userId\<close>, \<open>pid\<close> is \<^verbatim>\<open>req.params.pid\<close>, the \<open>body_\<close>
  fields are \<^verbatim>\<open>req.body\<close>, and \<open>file_location\<close> is \<^verbatim>\<open>req.file?.location\<close>.
\<close>

record request =
  valid :: bool
  userId :: oid
  pid :: oid
  body_title :: string
  body_description :: string
  body_address :: string
  body_comment :: string
  body_postId :: oid
  file_location :: "string option"

text \<open>
  What the handler takes from outside the store: \<^verbatim>\<open>getCoordsFromAddress\<close> (imported from
  \<^verbatim>\<open>../util/location\<close>, which either returns coordinates or throws), the clock, and the
  identifier that the model constructor gives a new document.
\<close>

record env =
  geocoder :: "string \<Rightarrow> err + coords"
  now :: nat
  newId :: oid

section \<open>Store primitives\<close>

definition store_call :: "event \<Rightarrow> world \<Rightarrow> bool \<times> world" where
  "store_call ev w =
     ((case faults w of [] \<Rightarrow> False | f # _ \<Rightarrow> f),
      w\<lparr>trace := trace w @ [ev], faults := tl (faults w)\<rparr>)"

definition user_findById :: "oid \<Rightarrow> store \<Rightarrow> user option" where
  "user_findById i s = find (\<lambda>u. user_id u = i) (UserModel s)"

definition post_findById :: "oid \<Rightarrow> store \<Rightarrow> post option" where
  "post_findById i s = find (\<lambda>p. post_id p = i) (PostModel s)"

definition comment_findById :: "oid \<Rightarrow> store \<Rightarrow> comment option" where
  "comment_findById i s = find (\<lambda>c. comment_id c = i) (CommentModel s)"

text \<open>Saving a new document inserts it; a duplicate \<^verbatim>\<open>_id\<close> is rejected.\<close>

definition post_insert :: "post \<Rightarrow> store \<Rightarrow> store option" where
  "post_insert p s =
     (if post_findById (post_id p) s = None
      then Some (s\<lparr>PostModel := PostModel s @ [p]\<rparr>) else None)"

definition comment_insert :: "comment \<Rightarrow> store \<Rightarrow> store option" where
  "comment_insert c s =
     (if comment_findById (comment_id c) s = None
      then Some (s\<lparr>CommentModel := CommentModel s @ [c]\<rparr>) else None)"

text \<open>Saving a loaded document writes it over the stored one with the same \<^verbatim>\<open>_id\<close>.\<close>

definition post_update :: "post \<Rightarrow> store \<Rightarrow> store" where
  "post_update p s =
     s\<lparr>PostModel := map (\<lambda>q. if post_id q = post_id p then p else q) (PostModel s)\<rparr>"

definition user_update :: "user \<Rightarrow> store \<Rightarrow> store" where
  "user_update u s =
     s\<lparr>UserModel := map (\<lambda>v. if user_id v = user_id u then u else v) (UserModel s)\<rparr>"

definition post_remove :: "oid \<Rightarrow> store \<Rightarrow> store" where
  "post_remove i s = s\<lparr>PostModel := filter (\<lambda>q. post_id q \<noteq> i) (PostModel s)\<rparr>"

text \<open>\<^verbatim>\<open>MongooseArray.pull\<close> drops every entry equal to the given identifier.\<close>

definition pull :: "oid \<Rightarrow> oid list \<Rightarrow> oid list" where
  "pull i xs = filter (\<lambda>x. x \<noteq> i) xs"

section \<open>The handlers\<close>

definition communication_error :: err where
  "communication_error = HttpError ''A communication error occured, please try again.'' ''500''"

definition invalid_inputs :: err where
  "invalid_inputs = HttpError ''Invalid Inputs, Please check inputs'' ''422''"

definition not_your_post :: err where
  "not_your_post = HttpError ''This isn't your post!'' ''401''"

subsection \<open>getFeed\<close>

text \<open>
  \<^verbatim>\<open>PostModel.find().sort({ createDate: 1 }).limit(50)\<close>: key \<open>1\<close> sorts ascending.
\<close>

definition getFeed :: "world \<Rightarrow> (err + post list) \<times> world" where
  "getFeed w =
     (let (failed, w1) = store_call PostFind w in
      if failed then (Inl (HttpError ''Error fetching feed.'' ''500''), w1)
      else (Inr (take 50 (sort_key createDate (PostModel (db w1)))), w1))"

subsection \<open>createPost\<close>

text \<open>
  The \<^verbatim>\<open>try\<close> block of \<^verbatim>\<open>createPost\<close>. The session works on its own copy of the store,
  which becomes the committed store at \<^verbatim>\<open>commitTransaction\<close>; \<open>None\<close> is any throw
  inside the block, among them the \<^verbatim>\<open>TypeError\<close> of \<^verbatim>\<open>user!.posts\<close> on a \<^verbatim>\<open>null\<close> user.
\<close>

definition createPost_transaction :: "post \<Rightarrow> user option \<Rightarrow> world \<Rightarrow> unit option \<times> world" where
  "createPost_transaction createdPlace usr w =
     (let (f1, w1) = store_call StartSession w in
      if f1 then (None, w1) else
      let (f2, w2) = store_call (PostSave (post_id createdPlace)) w1 in
      if f2 then (None, w2) else
      case post_insert createdPlace (db w2) of
        None \<Rightarrow> (None, w2)
      | Some s1 \<Rightarrow>
         (case usr of
            None \<Rightarrow> (None, w2)
          | Some u \<Rightarrow>
             let u' = u\<lparr>posts := posts u @ [post_id createdPlace]\<rparr>;
                 (f3, w3) = store_call (UserSave (user_id u')) w2 in
             if f3 then (None, w3) else
             let s2 = user_update u' s1;
                 (f4, w4) = store_call CommitTransaction w3 in
             if f4 then (None, w4) else (Some (), w4\<lparr>db := s2\<rparr>)))"

definition createPost :: "env \<Rightarrow> request \<Rightarrow> world \<Rightarrow> (err + post) \<times> world" where
  "createPost e req w =
     (if \<not> valid req then (Inl invalid_inputs, w) else
      let w1 = w\<lparr>trace := trace w @ [Geocode (body_address req)]\<rparr> in
      case geocoder e (body_address req) of
        Inl error \<Rightarrow> (Inl error, w1)
      | Inr coordinates' \<Rightarrow>
         let createdPlace =
               \<lparr>post_id = newId e, title = body_title req,
                description = body_description req, creatorId = userId req,
                address = body_address req, coordinates = coordinates',
                createDate = now e, image_loc = file_location req,
                post_comments = []\<rparr>;
             (f, w2) = store_call (UserFindById (userId req)) w1 in
         if f then (Inl (HttpError ''Could not find user with provided ID'' ''404''), w2) else
         let usr = user_findById (userId req) (db w2) in
         (case createPost_transaction createdPlace usr w2 of
            (None, w3) \<Rightarrow> (Inl communication_error, w3)
          | (Some _, w3) \<Rightarrow> (Inr createdPlace, w3)))"

subsection \<open>editPost\<close>

text \<open>
  \<^verbatim>\<open>filteredPost?.creatorId.toString()\<close> is \<^verbatim>\<open>undefined\<close> on a \<^verbatim>\<open>null\<close> post, which no
  \<^verbatim>\<open>userId\<close> string equals. The post is saved outside any session.
\<close>

definition editPost :: "env \<Rightarrow> request \<Rightarrow> world \<Rightarrow> (err + post) \<times> world" where
  "editPost e req w =
     (if \<not> valid req then (Inl invalid_inputs, w) else
      let (f, w1) = store_call (PostFindById (pid req)) w in
      if f then (Inl (HttpError ''Could not find a matching post ID.'' ''404''), w1) else
      case post_findById (pid req) (db w1) of
        None \<Rightarrow> (Inl not_your_post, w1)
      | Some filteredPost \<Rightarrow>
         if userId req \<noteq> creatorId filteredPost then (Inl not_your_post, w1) else
         let (r, w2) =
               (if address filteredPost \<noteq> body_address req then
                  (case geocoder e (body_address req) of
                     Inl _ \<Rightarrow> None
                   | Inr coordinates' \<Rightarrow>
                       Some (filteredPost\<lparr>title := body_title req,
                                          description := body_description req,
                                          coordinates := coordinates',
                                          address := body_address req\<rparr>),
                   w1\<lparr>trace := trace w1 @ [Geocode (body_address req)]\<rparr>)
                else
                  (Some (filteredPost\<lparr>title := body_title req,
                                      description := body_description req\<rparr>), w1)) in
         (case r of
            None \<Rightarrow>
              (Inl (HttpError ''An error occured translating location, please try again.'' ''500''),
               w2)
          | Some p \<Rightarrow>
              let (f3, w3) = store_call (PostSave (post_id p)) w2 in
              if f3 then (Inl communication_error, w3)
              else (Inr p, w3\<lparr>db := post_update p (db w3)\<rparr>)))"

subsection \<open>deletePost\<close>

text \<open>
  \<^verbatim>\<open>populate("creatorId")\<close> replaces the reference by the user document, or by \<^verbatim>\<open>null\<close>
  when there is none; \<^verbatim>\<open>filteredPost.creatorId.id\<close> then throws outside every \<^verbatim>\<open>try\<close>.
\<close>

definition deletePost_transaction :: "post \<Rightarrow> user \<Rightarrow> world \<Rightarrow> unit option \<times> world" where
  "deletePost_transaction filteredPost creator w =
     (let (f1, w1) = store_call StartSession w in
      if f1 then (None, w1) else
      let (f2, w2) = store_call (PostRemove (post_id filteredPost)) w1 in
      if f2 then (None, w2) else
      let s1 = post_remove (post_id filteredPost) (db w2);
          creator' = creator\<lparr>posts := pull (post_id filteredPost) (posts creator)\<rparr>;
          (f3, w3) = store_call (UserSave (user_id creator')) w2 in
      if f3 then (None, w3) else
      let s2 = user_update creator' s1;
          (f4, w4) = store_call CommitTransaction w3 in
      if f4 then (None, w4) else (Some (), w4\<lparr>db := s2\<rparr>))"

definition deletePost :: "request \<Rightarrow> world \<Rightarrow> (err + string) \<times> world" where
  "deletePost req w =
     (let (f, w1) = store_call (PostFindByIdPopulate (pid req)) w in
      if f then (Inl communication_error, w1) else
      case post_findById (pid req) (db w1) of
        None \<Rightarrow> (Inl (HttpError ''Could not find a matching post ID.'' ''404''), w1)
      | Some filteredPost \<Rightarrow>
         (case user_findById (creatorId filteredPost) (db w1) of
            None \<Rightarrow> (Inl TypeError, w1)
          | Some creator \<Rightarrow>
             if user_id creator \<noteq> userId req then (Inl not_your_post, w1) else
             (case deletePost_transaction filteredPost creator w1 of
                (None, w2) \<Rightarrow> (Inl communication_error, w2)
              | (Some _, w2) \<Rightarrow> (Inr ''deleted post'', w2))))"

subsection \<open>createComment\<close>

definition createComment_transaction ::
  "comment \<Rightarrow> user option \<Rightarrow> post option \<Rightarrow> world \<Rightarrow> unit option \<times> world" where
  "createComment_transaction createdComment usr pst w =
     (let (f1, w1) = store_call StartSession w in
      if f1 then (None, w1) else
      let (f2, w2) = store_call (CommentSave (comment_id createdComment)) w1 in
      if f2 then (None, w2) else
      case comment_insert createdComment (db w2) of
        None \<Rightarrow> (None, w2)
      | Some s1 \<Rightarrow>
         (case usr of
            None \<Rightarrow> (None, w2)
          | Some u \<Rightarrow>
             let u' = u\<lparr>comments := comments u @ [comment_id createdComment]\<rparr>;
                 (f3, w3) = store_call (UserSave (user_id u')) w2 in
             if f3 then (None, w3) else
             let s2 = user_update u' s1 in
             (case pst of
                None \<Rightarrow> (None, w3)
              | Some p \<Rightarrow>
                 let p' = p\<lparr>post_comments := post_comments p @ [comment_id createdComment]\<rparr>;
                     (f4, w4) = store_call (PostSave (post_id p')) w3 in
                 if f4 then (None, w4) else
                 let s3 = post_update p' s2;
                     (f5, w5) = store_call CommitTransaction w4 in
                 if f5 then (None, w5) else (Some (), w5\<lparr>db := s3\<rparr>))))"

definition createComment :: "env \<Rightarrow> request \<Rightarrow> world \<Rightarrow> (err + comment) \<times> world" where
  "createComment e req w =
     (if \<not> valid req then (Inl invalid_inputs, w) else
      let createdComment =
            \<lparr>comment_id = newId e, comment_creatorId = userId req,
             comment_createDate = now e, comment_text = body_comment req,
             comment_post = body_postId req\<rparr>;
          (f1, w1) = store_call (UserFindById (userId req)) w in
      if f1 then (Inl (HttpError ''Could not find your userID, please try again'' ''404''), w1) else
      let usr = user_findById (userId req) (db w1);
          (f2, w2) = store_call (PostFindById (body_postId req)) w1 in
      if f2 then (Inl (HttpError ''Could not find that post'' ''404''), w2) else
      let pst = post_findById (body_postId req) (db w2) in
      case createComment_transaction createdComment usr pst w2 of
        (None, w3) \<Rightarrow> (Inl communication_error, w3)
      | (Some _, w3) \<Rightarrow> (Inr createdComment, w3))"


section \<open>Observations and invariants\<close>

text \<open>How many times a log shows the geocoder being called.\<close>

fun is_Geocode :: "event \<Rightarrow> bool" where
  "is_Geocode (Geocode _) = True"
| "is_Geocode _ = False"

definition geocoder_calls :: "event list \<Rightarrow> nat" where
  "geocoder_calls evs = length (filter is_Geocode evs)"

text \<open>
  The first \<open>n\<close> awaited store calls of a handler go through: the oracle holds
  \<open>False\<close> at each of these positions, or ends before.
\<close>

definition calls_ok :: "nat \<Rightarrow> world \<Rightarrow> bool" where
  "calls_ok n w = list_all (\<lambda>f. \<not> f) (take n (faults w))"

text \<open>
  Back-reference consistency between users and posts: every identifier in a user's
  post list is that of a stored post created by this user, and the creator of every
  stored post is a stored user whose list holds the post.
\<close>

definition backrefs_consistent :: "store \<Rightarrow> bool" where
  "backrefs_consistent s =
     (list_all (\<lambda>u. list_all (\<lambda>i. case post_findById i s of
                                     None \<Rightarrow> False
                                   | Some p \<Rightarrow> creatorId p = user_id u) (posts u))
               (UserModel s) \<and>
      list_all (\<lambda>p. case user_findById (creatorId p) s of
                       None \<Rightarrow> False
                     | Some u \<Rightarrow> post_id p \<in> set (posts u))
               (PostModel s))"

text \<open>
  Every identifier in a user's or a post's comment list is that of a stored comment.
\<close>

definition comment_refs_exist :: "store \<Rightarrow> bool" where
  "comment_refs_exist s =
     (list_all (\<lambda>u. list_all (\<lambda>i. comment_findById i s \<noteq> None) (comments u))
               (UserModel s) \<and>
      list_all (\<lambda>p. list_all (\<lambda>i. comment_findById i s \<noteq> None) (post_comments p))
               (PostModel s))"

section \<open>A small store to run the handlers on\<close>

definition alice :: user where
  "alice = \<lparr>user_id = ''u1'', posts = [''p1'', ''p2''], comments = []\<rparr>"

definition bob :: user where
  "bob = \<lparr>user_id = ''u2'', posts = [], comments = []\<rparr>"

definition cabin :: post where
  "cabin = \<lparr>post_id = ''p1'', title = ''Cabin'', description = ''Lake'', creatorId = ''u1'',
            address = ''123 Main St'', coordinates = \<lparr>lat = 40, lng = - 74\<rparr>,
            createDate = 1000, image_loc = None, post_comments = []\<rparr>"

definition lodge :: post where
  "lodge = \<lparr>post_id = ''p2'', title = ''Lodge'', description = ''Hill'', creatorId = ''u1'',
            address = ''9 High St'', coordinates = \<lparr>lat = 41, lng = - 73\<rparr>,
            createDate = 2000, image_loc = None, post_comments = []\<rparr>"

definition example_store :: store where
  "example_store = \<lparr>UserModel = [alice, bob], PostModel = [cabin, lodge], CommentModel = []\<rparr>"

definition example_world :: "bool list \<Rightarrow> world" where
  "example_world fs = \<lparr>db = example_store, trace = [], faults = fs\<rparr>"

definition geocoder_up :: "string \<Rightarrow> err + coords" where
  "geocoder_up a = Inr \<lparr>lat = 42, lng = - 71\<rparr>"

definition geocoder_down :: "string \<Rightarrow> err + coords" where
  "geocoder_down a = Inl (HttpError ''Could not find location.'' ''422'')"

definition example_env :: "(string \<Rightarrow> err + coords) \<Rightarrow> env" where
  "example_env g = \<lparr>geocoder = g, now = 3000, newId = ''n1''\<rparr>"

text \<open>A valid request by user \<open>u\<close> on post \<open>p\<close> with address \<open>a\<close>.\<close>

definition example_request :: "oid \<Rightarrow> oid \<Rightarrow> string \<Rightarrow> request" where
  "example_request u p a =
     \<lparr>valid = True, userId = u, pid = p, body_title = ''Hut'', body_description = ''Wood'',
      body_address = a, body_comment = ''Nice'', body_postId = p, file_location = None\<rparr>"

text \<open>
  A store in which the creator of a post is no stored user: post \<open>p3\<close> names \<open>u7\<close>.
\<close>

definition orphan :: post where
  "orphan = \<lparr>post_id = ''p3'', title = ''Shed'', description = ''Yard'', creatorId = ''u7'',
             address = ''7 Mill Rd'', coordinates = \<lparr>lat = 39, lng = - 75\<rparr>,
             createDate = 1500, image_loc = None, post_comments = []\<rparr>"

definition orphan_world :: world where
  "orphan_world =
     \<lparr>db = \<lparr>UserModel = [alice, bob], PostModel = [cabin, lodge, orphan],
             CommentModel = []\<rparr>,
      trace = [], faults = []\<rparr>"


section \<open>Facts about the primitives\<close>

lemmas example_defs =
  example_world_def example_store_def example_env_def example_request_def
  alice_def bob_def cabin_def lodge_def geocoder_up_def geocoder_down_def

lemma store_call_db: "store_call ev w = (f, w') \<Longrightarrow> db w' = db w"
  by (auto simp: store_call_def)

lemma createPost_transaction_None:
  "createPost_transaction p u w = (None, w') \<Longrightarrow> db w' = db w"
  by (auto simp: createPost_transaction_def Let_def dest!: store_call_db
           split: prod.splits if_splits option.splits)

lemma deletePost_transaction_None:
  "deletePost_transaction p u w = (None, w') \<Longrightarrow> db w' = db w"
  by (auto simp: deletePost_transaction_def Let_def dest!: store_call_db
           split: prod.splits if_splits option.splits)

lemma createComment_transaction_None:
  "createComment_transaction c u p w = (None, w') \<Longrightarrow> db w' = db w"
  by (auto simp: createComment_transaction_def Let_def dest!: store_call_db
           split: prod.splits if_splits option.splits)

lemma createPost_error_db:
  "createPost e req w = (Inl er, w') \<Longrightarrow> db w' = db w"
  by (auto simp: createPost_def Let_def dest!: store_call_db createPost_transaction_None
           split: prod.splits if_splits option.splits sum.splits)

lemma editPost_error_db:
  "editPost e req w = (Inl er, w') \<Longrightarrow> db w' = db w"
  by (auto simp: editPost_def Let_def dest!: store_call_db
           split: prod.splits if_splits option.splits sum.splits)

lemma deletePost_error_db:
  "deletePost req w = (Inl er, w') \<Longrightarrow> db w' = db w"
  by (auto simp: deletePost_def Let_def dest!: store_call_db deletePost_transaction_None
           split: prod.splits if_splits option.splits sum.splits)

lemma createComment_error_db:
  "createComment e req w = (Inl er, w') \<Longrightarrow> db w' = db w"
  by (auto simp: createComment_def Let_def dest!: store_call_db createComment_transaction_None
           split: prod.splits if_splits option.splits sum.splits)

lemma createPost_user_save_rejected:
  assumes "valid req" and "geocoder e (body_address req) = Inr c"
    and "user_findById (userId req) (db w) = Some u"
    and "post_findById (newId e) (db w) = None"
    and "faults w = False # False # False # True # fs"
  shows "createPost e req w =
           (Inl communication_error,
            w\<lparr>trace := trace w @ [Geocode (body_address req), UserFindById (userId req),
                                  StartSession, PostSave (newId e), UserSave (user_id u)],
              faults := fs\<rparr>)"
  using assms
  by (simp add: createPost_def createPost_transaction_def store_call_def post_insert_def Let_def)

section \<open>Atomicity\<close>

text \<open>
  Claim C1. Each of the four mutating handlers is all-or-nothing: whatever the store,
  the request and the failures of the store calls, a handler that reports an error
  leaves the committed store as it was. In particular, when \<^verbatim>\<open>createPost\<close> has
  written the post in its session and the save of the owning user is then rejected,
  the handler reports an error and the committed store is unchanged, so the post is
  not observable.
\<close>

theorem mutations_all_or_nothing:
  "(createPost e req w = (Inl er, w') \<longrightarrow> db w' = db w) \<and>
   (editPost e req w = (Inl er, w') \<longrightarrow> db w' = db w) \<and>
   (deletePost req w = (Inl er, w') \<longrightarrow> db w' = db w) \<and>
   (createComment e req w = (Inl er, w') \<longrightarrow> db w' = db w) \<and>
   (valid req \<and> geocoder e (body_address req) = Inr c \<and>
    user_findById (userId req) (db w) = Some u \<and>
    post_findById (newId e) (db w) = None \<and>
    faults w = False # False # False # True # fs \<longrightarrow>
      fst (createPost e req w) = Inl communication_error \<and>
      trace (snd (createPost e req w)) =
        trace w @ [Geocode (body_address req), UserFindById (userId req),
                   StartSession, PostSave (newId e), UserSave (user_id u)] \<and>
      db (snd (createPost e req w)) = db w \<and>
      post_findById (newId e) (db (snd (createPost e req w))) = None)"
proof -
  have "createPost e req w = (Inl er, w') \<longrightarrow> db w' = db w"
    by (blast dest: createPost_error_db)
  moreover have "editPost e req w = (Inl er, w') \<longrightarrow> db w' = db w"
    by (blast dest: editPost_error_db)
  moreover have "deletePost req w = (Inl er, w') \<longrightarrow> db w' = db w"
    by (blast dest: deletePost_error_db)
  moreover have "createComment e req w = (Inl er, w') \<longrightarrow> db w' = db w"
    by (blast dest: createComment_error_db)
  moreover have "valid req \<and> geocoder e (body_address req) = Inr c \<and>
    user_findById (userId req) (db w) = Some u \<and>
    post_findById (newId e) (db w) = None \<and>
    faults w = False # False # False # True # fs \<longrightarrow>
      fst (createPost e req w) = Inl communication_error \<and>
      trace (snd (createPost e req w)) =
        trace w @ [Geocode (body_address req), UserFindById (userId req),
                   StartSession, PostSave (newId e), UserSave (user_id u)] \<and>
      db (snd (createPost e req w)) = db w \<and>
      post_findById (newId e) (db (snd (createPost e req w))) = None"
    by (simp add: createPost_user_save_rejected)
  ultimately show ?thesis by blast
qed

theorem mutations_all_or_nothing_witness:
  "isl (fst (createPost (example_env geocoder_up) (example_request ''u1'' ''p1'' ''5 Low St'')
               (example_world [False, False, False, True]))) \<and>
   db (snd (createPost (example_env geocoder_up) (example_request ''u1'' ''p1'' ''5 Low St'')
               (example_world [False, False, False, True]))) = example_store \<and>
   post_findById ''n1''
     (db (snd (createPost (example_env geocoder_up) (example_request ''u1'' ''p1'' ''5 Low St'')
               (example_world [False, False, False, True])))) = None \<and>
   isl (fst (editPost (example_env geocoder_down) (example_request ''u1'' ''p1'' ''5 Low St'')
               (example_world []))) \<and>
   db (snd (editPost (example_env geocoder_down) (example_request ''u1'' ''p1'' ''5 Low St'')
               (example_world []))) = example_store \<and>
   isl (fst (deletePost (example_request ''u1'' ''p1'' ''5 Low St'')
               (example_world [False, False, False, False, True]))) \<and>
   db (snd (deletePost (example_request ''u1'' ''p1'' ''5 Low St'')
               (example_world [False, False, False, False, True]))) = example_store \<and>
   isl (fst (createComment (example_env geocoder_up) (example_request ''u2'' ''p1'' ''5 Low St'')
               (example_world [False, False, False, False, False, True]))) \<and>
   db (snd (createComment (example_env geocoder_up) (example_request ''u2'' ''p1'' ''5 Low St'')
               (example_world [False, False, False, False, False, True]))) = example_store"
proof -
  let ?e = "example_env geocoder_up" and ?d = "example_env geocoder_down"
  let ?r = "example_request ''u1'' ''p1'' ''5 Low St''"
  let ?q = "example_request ''u2'' ''p1'' ''5 Low St''"
  have a: "createPost ?e ?r (example_world [False, False, False, True]) =
             (Inl communication_error,
              snd (createPost ?e ?r (example_world [False, False, False, True])))"
    by (simp add: createPost_def createPost_transaction_def store_call_def post_insert_def
        user_findById_def post_findById_def Let_def example_defs)
  have b: "editPost ?d ?r (example_world []) =
             (Inl (HttpError ''An error occured translating location, please try again.'' ''500''),
              snd (editPost ?d ?r (example_world [])))"
    by (simp add: editPost_def store_call_def post_findById_def Let_def example_defs)
  have c: "deletePost ?r (example_world [False, False, False, False, True]) =
             (Inl communication_error,
              snd (deletePost ?r (example_world [False, False, False, False, True])))"
    by (simp add: deletePost_def deletePost_transaction_def store_call_def
        user_findById_def post_findById_def Let_def example_defs)
  have d: "createComment ?e ?q (example_world [False, False, False, False, False, True]) =
             (Inl communication_error,
              snd (createComment ?e ?q (example_world [False, False, False, False, False, True])))"
    by (simp add: createComment_def createComment_transaction_def store_call_def
        comment_insert_def comment_findById_def
        user_findById_def post_findById_def Let_def example_defs)
  have h: "valid ?r \<and> geocoder ?e (body_address ?r) = Inr \<lparr>lat = 42, lng = - 71\<rparr> \<and>
           user_findById (userId ?r) (db (example_world [False, False, False, True])) = Some alice \<and>
           post_findById (newId ?e) (db (example_world [False, False, False, True])) = None \<and>
           faults (example_world [False, False, False, True]) = False # False # False # True # []"
    by (simp add: user_findById_def post_findById_def example_defs)
  have db0: "\<And>fs. db (example_world fs) = example_store"
    by (simp add: example_world_def)
  have n: "newId ?e = ''n1''"
    by (simp add: example_env_def)
  from a b c d h db0 n
    mutations_all_or_nothing [of ?e ?r "example_world [False, False, False, True]"
      communication_error "snd (createPost ?e ?r (example_world [False, False, False, True]))"
      "\<lparr>lat = 42, lng = - 71\<rparr>" alice "[]"]
    mutations_all_or_nothing [of ?d ?r "example_world []"
      "HttpError ''An error occured translating location, please try again.'' ''500''"
      "snd (editPost ?d ?r (example_world []))"]
    mutations_all_or_nothing [of ?e ?r "example_world [False, False, False, False, True]"
      communication_error
      "snd (deletePost ?r (example_world [False, False, False, False, True]))"]
    mutations_all_or_nothing [of ?e ?q "example_world [False, False, False, False, False, True]"
      communication_error
      "snd (createComment ?e ?q (example_world [False, False, False, False, False, True]))"]
  show ?thesis
    by (metis fst_conv sum.disc(1))
qed

section \<open>Calls that go through\<close>

lemma store_call_ok:
  "calls_ok (Suc n) w \<Longrightarrow>
     store_call ev w = (False, w\<lparr>trace := trace w @ [ev], faults := tl (faults w)\<rparr>) \<and>
     calls_ok n (w\<lparr>trace := trace w @ [ev], faults := tl (faults w)\<rparr>)"
  by (cases "faults w") (simp_all add: calls_ok_def store_call_def)

lemma createPost_transaction_no_user:
  "fst (createPost_transaction p None w) = None"
  by (simp add: createPost_transaction_def Let_def split: prod.splits option.splits)

lemma createComment_transaction_no_user:
  "fst (createComment_transaction c None p w) = None"
  by (simp add: createComment_transaction_def Let_def split: prod.splits option.splits)

lemma createComment_transaction_no_post:
  "fst (createComment_transaction c u None w) = None"
  by (simp add: createComment_transaction_def Let_def split: prod.splits option.splits)

section \<open>Order of the checks in createPost\<close>

text \<open>
  Claim C10. \<^verbatim>\<open>createPost\<close> calls the geocoder before it looks the creator up: on a
  validated request whose address the geocoder rejects, the handler passes on the
  geocoder's error, and the world afterwards differs from the one before only by the
  single logged geocoder call. No user is read, nothing is written, and this is so
  whether or not the creator exists.
\<close>

theorem createPost_geocode_first:
  assumes "valid req" and "geocoder e (body_address req) = Inl g"
  shows "createPost e req w = (Inl g, w\<lparr>trace := trace w @ [Geocode (body_address req)]\<rparr>)"
  using assms by (simp add: createPost_def)

theorem createPost_geocode_first_witness:
  "user_findById ''u9'' example_store = None \<and>
   createPost (example_env geocoder_down) (example_request ''u9'' ''p1'' ''5 Low St'')
              (example_world []) =
     (Inl (HttpError ''Could not find location.'' ''422''),
      \<lparr>db = example_store, trace = [Geocode ''5 Low St''], faults = []\<rparr>)"
  using createPost_geocode_first [of "example_request ''u9'' ''p1'' ''5 Low St''"
      "example_env geocoder_down" "HttpError ''Could not find location.'' ''422''"
      "example_world []"]
  by (simp add: user_findById_def example_defs)

section \<open>Lookups that find nothing\<close>

text \<open>
  Claim C2 says that \<^verbatim>\<open>createPost\<close> with a creator that is no stored user fails with
  the 404 error. The lookup resolves to \<^verbatim>\<open>null\<close> instead of throwing, so the handler
  goes on into its \<^verbatim>\<open>try\<close> block and ends in the 500 communication error. What holds
  of the code: on a validated request whose address geocodes and whose lookup call goes
  through, an unknown creator gives the communication error and leaves the committed
  store unchanged.
\<close>

theorem createPost_unknown_user:
  assumes "valid req" and "geocoder e (body_address req) = Inr c" and "calls_ok 1 w"
    and "user_findById (userId req) (db w) = None"
  shows "fst (createPost e req w) = Inl communication_error \<and>
         db (snd (createPost e req w)) = db w"
proof -
  let ?w1 = "w\<lparr>trace := trace w @ [Geocode (body_address req)]\<rparr>"
  have "calls_ok (Suc 0) ?w1" using assms(3) by (simp add: calls_ok_def)
  from store_call_ok [OF this, of "UserFindById (userId req)"]
  have r: "fst (createPost e req w) = Inl communication_error"
    using assms createPost_transaction_no_user
    by (simp add: createPost_def Let_def split: prod.splits option.splits) (metis fst_conv option.distinct(1))
  then have "createPost e req w = (Inl communication_error, snd (createPost e req w))"
    by (metis prod.collapse)
  from createPost_error_db [OF this] r show ?thesis by simp
qed


theorem createPost_unknown_user_witness:
  "user_findById ''u9'' example_store = None \<and>
   fst (createPost (example_env geocoder_up) (example_request ''u9'' ''p1'' ''5 Low St'')
          (example_world [])) =
     Inl (HttpError ''A communication error occured, please try again.'' ''500'') \<and>
   db (snd (createPost (example_env geocoder_up) (example_request ''u9'' ''p1'' ''5 Low St'')
          (example_world []))) = example_store"
  using createPost_unknown_user [of "example_request ''u9'' ''p1'' ''5 Low St''"
      "example_env geocoder_up" "\<lparr>lat = 42, lng = - 71\<rparr>" "example_world []"]
  by (simp add: user_findById_def calls_ok_def communication_error_def example_defs)

text \<open>
  Claim C3 says that \<^verbatim>\<open>editPost\<close> on an identifier of no stored post fails with the
  404 error. The lookup resolves to \<^verbatim>\<open>null\<close>, and the ownership test then compares
  the requester with \<^verbatim>\<open>undefined\<close>: the handler answers with the 401 error. What holds
  of the code: on a validated request whose lookup call goes through, an unknown post
  gives the 401 error and leaves the committed store unchanged.
\<close>

theorem editPost_unknown_post:
  assumes "valid req" and "calls_ok 1 w" and "post_findById (pid req) (db w) = None"
  shows "fst (editPost e req w) = Inl not_your_post \<and> db (snd (editPost e req w)) = db w"
proof -
  have "calls_ok (Suc 0) w" using assms(2) by simp
  from store_call_ok [OF this, of "PostFindById (pid req)"] assms
  show ?thesis by (simp add: editPost_def)
qed

theorem editPost_unknown_post_witness:
  "post_findById ''p9'' example_store = None \<and>
   fst (editPost (example_env geocoder_up) (example_request ''u1'' ''p9'' ''5 Low St'')
          (example_world [])) = Inl (HttpError ''This isn't your post!'' ''401'') \<and>
   db (snd (editPost (example_env geocoder_up) (example_request ''u1'' ''p9'' ''5 Low St'')
          (example_world []))) = example_store"
  using editPost_unknown_post [of "example_request ''u1'' ''p9'' ''5 Low St''"
      "example_world []" "example_env geocoder_up"]
  by (simp add: post_findById_def calls_ok_def not_your_post_def example_defs)

text \<open>
  Claim C7 says that \<^verbatim>\<open>createComment\<close> fails with the 404 error when the creator or
  the post does not exist. Both lookups resolve to \<^verbatim>\<open>null\<close>, and the \<^verbatim>\<open>TypeError\<close>
  on the \<^verbatim>\<open>null\<close> document is caught inside the session's \<^verbatim>\<open>try\<close> block. What holds
  of the code: on a validated request whose two lookup calls go through, an unknown
  creator or an unknown post gives the 500 communication error and leaves the committed
  store unchanged.
\<close>

theorem createComment_unknown_user_or_post:
  assumes "valid req" and "calls_ok 2 w"
    and "user_findById (userId req) (db w) = None \<or>
         post_findById (body_postId req) (db w) = None"
  shows "fst (createComment e req w) = Inl communication_error \<and>
         db (snd (createComment e req w)) = db w"
proof -
  let ?w1 = "w\<lparr>trace := trace w @ [UserFindById (userId req)], faults := tl (faults w)\<rparr>"
  have "calls_ok (Suc (Suc 0)) w" using assms(2) by (simp add: numeral_2_eq_2)
  from store_call_ok [OF this, of "UserFindById (userId req)"]
  have 1: "store_call (UserFindById (userId req)) w = (False, ?w1)" and "calls_ok (Suc 0) ?w1"
    by simp_all
  from store_call_ok [OF this(2), of "PostFindById (body_postId req)"]
  have 2: "fst (store_call (PostFindById (body_postId req)) ?w1) = False"
    and 3: "db (snd (store_call (PostFindById (body_postId req)) ?w1)) = db w"
    by simp_all
  have r: "fst (createComment e req w) = Inl communication_error"
    using assms(1,3) 1 2 3 createComment_transaction_no_user createComment_transaction_no_post
    by (auto simp: createComment_def Let_def split: prod.splits option.splits)
       (metis fst_conv option.distinct(1))+
  then have "createComment e req w = (Inl communication_error, snd (createComment e req w))"
    by (metis prod.collapse)
  from createComment_error_db [OF this] r show ?thesis by simp
qed

theorem createComment_unknown_user_or_post_witness:
  "user_findById ''u9'' example_store = None \<and>
   fst (createComment (example_env geocoder_up) (example_request ''u9'' ''p1'' ''5 Low St'')
          (example_world [])) =
     Inl (HttpError ''A communication error occured, please try again.'' ''500'') \<and>
   db (snd (createComment (example_env geocoder_up) (example_request ''u9'' ''p1'' ''5 Low St'')
          (example_world []))) = example_store"
  using createComment_unknown_user_or_post [of "example_request ''u9'' ''p1'' ''5 Low St''"
      "example_world []" "example_env geocoder_up"]
  by (simp add: user_findById_def calls_ok_def communication_error_def example_defs)

section \<open>The feed\<close>

text \<open>
  Claim C4 says that \<^verbatim>\<open>getFeed\<close> lists the posts newest first, at most 50 of them.
  The sort key \<^verbatim>\<open>{ createDate: 1 }\<close> is ascending. What holds of the code: when the
  query goes through, the feed is the first 50 posts in ascending order of
  \<^verbatim>\<open>createDate\<close>, oldest first.
\<close>

theorem getFeed_oldest_first:
  assumes "calls_ok 1 w"
  shows "\<exists>ps. fst (getFeed w) = Inr ps \<and> sorted (map createDate ps) \<and> length ps \<le> 50 \<and>
              ps = take 50 (sort_key createDate (PostModel (db w)))"
proof -
  have "calls_ok (Suc 0) w" using assms by simp
  from store_call_ok [OF this, of PostFind]
  have "fst (getFeed w) = Inr (take 50 (sort_key createDate (PostModel (db w))))"
    by (simp add: getFeed_def)
  moreover have "sorted (map createDate (take 50 (sort_key createDate (PostModel (db w)))))"
    by (simp add: take_map [symmetric] sorted_wrt_take)
  ultimately show ?thesis by simp
qed

theorem getFeed_oldest_first_witness:
  "createDate cabin < createDate lodge \<and>
   fst (getFeed (example_world [])) = Inr [cabin, lodge]"
  using getFeed_oldest_first [of "example_world []"]
  by (simp add: calls_ok_def example_defs)

section \<open>Lookups after writes\<close>

lemma find_replace_same:
  "key u' = k \<Longrightarrow>
     find (\<lambda>v. key v = k) (map (\<lambda>v. if key v = k then u' else v) xs) =
     map_option (\<lambda>_. u') (find (\<lambda>v. key v = k) xs)"
  by (induction xs) simp_all

lemma find_replace_other:
  "key u' = k \<Longrightarrow> j \<noteq> k \<Longrightarrow>
     find (\<lambda>v. key v = j) (map (\<lambda>v. if key v = k then u' else v) xs) =
     find (\<lambda>v. key v = j) xs"
  by (induction xs) auto

lemma find_key: "find (\<lambda>v. key v = k) xs = Some x \<Longrightarrow> key x = k \<and> x \<in> set xs"
  by (induction xs) (auto split: if_splits)

lemma user_findById_id: "user_findById i s = Some u \<Longrightarrow> user_id u = i \<and> u \<in> set (UserModel s)"
  unfolding user_findById_def by (rule find_key)

lemma post_findById_id: "post_findById i s = Some p \<Longrightarrow> post_id p = i \<and> p \<in> set (PostModel s)"
  unfolding post_findById_def by (rule find_key)

lemma post_findById_update:
  "post_findById i s = Some p \<Longrightarrow> post_id p' = i \<Longrightarrow>
     post_findById i (post_update p' s) = Some p'"
  by (simp add: post_findById_def post_update_def find_replace_same)

section \<open>Editing a post\<close>

lemma geocoder_calls_append [simp]:
  "geocoder_calls (xs @ ys) = geocoder_calls xs + geocoder_calls ys"
  by (simp add: geocoder_calls_def)

lemma geocoder_calls_simps [simp]:
  "geocoder_calls [] = 0"
  "geocoder_calls (ev # evs) = (if is_Geocode ev then Suc (geocoder_calls evs) else geocoder_calls evs)"
  by (simp_all add: geocoder_calls_def)

lemma editPost_same_address_trace:
  assumes "post_findById (pid req) (db w) = Some p" and "address p = body_address req"
  shows "geocoder_calls (trace (snd (editPost e req w))) = geocoder_calls (trace w)"
  using assms
  by (simp add: editPost_def store_call_def Let_def split: list.splits)

lemma editPost_same_address_result:
  assumes "post_findById (pid req) (db w) = Some p" and "address p = body_address req"
    and "fst (editPost e req w) = Inr p'"
  shows "p' = p\<lparr>title := body_title req, description := body_description req\<rparr> \<and>
         db (snd (editPost e req w)) = post_update p' (db w) \<and>
         post_findById (pid req) (db (snd (editPost e req w))) = Some p'"
proof -
  from assms(1) have i: "post_id p = pid req" by (simp add: post_findById_id)
  let ?p = "p\<lparr>title := body_title req, description := body_description req\<rparr>"
  from assms have "p' = ?p \<and> db (snd (editPost e req w)) = post_update ?p (db w)"
    by (auto simp: editPost_def store_call_def Let_def split: list.splits if_splits)
  moreover have "post_findById (pid req) (post_update ?p (db w)) = Some ?p"
    using assms(1) i by (intro post_findById_update) simp_all
  ultimately show ?thesis by simp
qed

lemma editPost_changed_address:
  assumes "post_findById (pid req) (db w) = Some p" and "address p \<noteq> body_address req"
    and "valid req" and "calls_ok 1 w" and "userId req = creatorId p"
  shows "geocoder_calls (trace (snd (editPost e req w))) = Suc (geocoder_calls (trace w))"
    and "geocoder e (body_address req) = Inl g \<Longrightarrow>
           fst (editPost e req w) =
             Inl (HttpError ''An error occured translating location, please try again.'' ''500'') \<and>
           db (snd (editPost e req w)) = db w \<and>
           post_findById (pid req) (db (snd (editPost e req w))) = Some p"
proof -
  have "calls_ok (Suc 0) w" using assms(4) by simp
  note c = store_call_ok [OF this, of "PostFindById (pid req)"]
  show "geocoder_calls (trace (snd (editPost e req w))) = Suc (geocoder_calls (trace w))"
    using assms c
    by (auto simp: editPost_def Let_def store_call_def split: sum.splits list.splits)
  show "fst (editPost e req w) =
             Inl (HttpError ''An error occured translating location, please try again.'' ''500'') \<and>
           db (snd (editPost e req w)) = db w \<and>
           post_findById (pid req) (db (snd (editPost e req w))) = Some p"
    if "geocoder e (body_address req) = Inl g"
    using assms c that by (simp add: editPost_def)
qed


text \<open>
  Claim C5. For an \<^verbatim>\<open>editPost\<close> call on a stored post: when the new address equals the
  stored one, the handler never calls the geocoder, and a successful edit stores the
  post with only title and description replaced (address and coordinates as before);
  when the new address differs and the request passes validation, lookup and the
  ownership test, the geocoder is called once, and if it fails the handler reports the
  geocoding error and the committed store, hence the post's title, description,
  address and coordinates, is unchanged.
\<close>

theorem editPost_regeocode_on_change:
  assumes "post_findById (pid req) (db w) = Some p"
  shows "(address p = body_address req \<longrightarrow>
            geocoder_calls (trace (snd (editPost e req w))) = geocoder_calls (trace w) \<and>
            (\<forall>p'. fst (editPost e req w) = Inr p' \<longrightarrow>
               p' = p\<lparr>title := body_title req, description := body_description req\<rparr> \<and>
               db (snd (editPost e req w)) = post_update p' (db w) \<and>
               post_findById (pid req) (db (snd (editPost e req w))) = Some p')) \<and>
         (address p \<noteq> body_address req \<and> valid req \<and> calls_ok 1 w \<and>
          userId req = creatorId p \<longrightarrow>
            geocoder_calls (trace (snd (editPost e req w))) = Suc (geocoder_calls (trace w)) \<and>
            (\<forall>g. geocoder e (body_address req) = Inl g \<longrightarrow>
               fst (editPost e req w) =
                 Inl (HttpError ''An error occured translating location, please try again.''
                        ''500'') \<and>
               db (snd (editPost e req w)) = db w \<and>
               post_findById (pid req) (db (snd (editPost e req w))) = Some p))"
  using editPost_same_address_trace [OF assms, of e]
    editPost_same_address_result [OF assms, of e]
    editPost_changed_address [OF assms, of e]
  by blast

theorem editPost_regeocode_on_change_witness:
  "post_findById ''p1'' example_store = Some cabin \<and>
   fst (editPost (example_env geocoder_down) (example_request ''u1'' ''p1'' ''123 Main St'')
          (example_world [])) = Inr (cabin\<lparr>title := ''Hut'', description := ''Wood''\<rparr>) \<and>
   geocoder_calls (trace (snd (editPost (example_env geocoder_down)
          (example_request ''u1'' ''p1'' ''123 Main St'') (example_world [])))) = 0 \<and>
   post_findById ''p1'' (db (snd (editPost (example_env geocoder_down)
          (example_request ''u1'' ''p1'' ''123 Main St'') (example_world [])))) =
     Some (cabin\<lparr>title := ''Hut'', description := ''Wood''\<rparr>) \<and>
   fst (editPost (example_env geocoder_down) (example_request ''u1'' ''p1'' ''5 Low St'')
          (example_world [])) =
     Inl (HttpError ''An error occured translating location, please try again.'' ''500'') \<and>
   geocoder_calls (trace (snd (editPost (example_env geocoder_down)
          (example_request ''u1'' ''p1'' ''5 Low St'') (example_world [])))) = 1 \<and>
   db (snd (editPost (example_env geocoder_down) (example_request ''u1'' ''p1'' ''5 Low St'')
          (example_world []))) = example_store"
proof -
  let ?e = "example_env geocoder_down"
  let ?same = "example_request ''u1'' ''p1'' ''123 Main St''"
  let ?new = "example_request ''u1'' ''p1'' ''5 Low St''"
  have f: "post_findById ''p1'' example_store = Some cabin"
    by (simp add: post_findById_def example_defs)
  have a: "fst (editPost ?e ?same (example_world [])) =
             Inr (cabin\<lparr>title := ''Hut'', description := ''Wood''\<rparr>)"
    by (simp add: editPost_def store_call_def post_findById_def Let_def example_defs)
  have h1: "post_findById (pid ?same) (db (example_world [])) = Some cabin"
    "post_findById (pid ?new) (db (example_world [])) = Some cabin"
    using f by (simp_all add: example_world_def example_request_def)
  have h2: "address cabin = body_address ?same" "address cabin \<noteq> body_address ?new"
    "valid ?new" "calls_ok 1 (example_world [])" "userId ?new = creatorId cabin"
    "geocoder ?e (body_address ?new) = Inl (HttpError ''Could not find location.'' ''422'')"
    "pid ?same = ''p1''" "pid ?new = ''p1''"
    "trace (example_world []) = []" "db (example_world []) = example_store"
    by (simp_all add: calls_ok_def example_defs)
  note t1 = editPost_regeocode_on_change [OF h1(1), of ?e]
  note t2 = editPost_regeocode_on_change [OF h1(2), of ?e]
  have s1: "geocoder_calls (trace (snd (editPost ?e ?same (example_world [])))) = 0"
    using t1 h2(1,9) by simp
  have s2: "post_findById ''p1'' (db (snd (editPost ?e ?same (example_world [])))) =
              Some (cabin\<lparr>title := ''Hut'', description := ''Wood''\<rparr>)"
    using t1 h2(1) a unfolding h2(7) by blast
  have s3: "geocoder_calls (trace (snd (editPost ?e ?new (example_world [])))) = 1 \<and>
            fst (editPost ?e ?new (example_world [])) =
              Inl (HttpError ''An error occured translating location, please try again.'' ''500'') \<and>
            db (snd (editPost ?e ?new (example_world []))) = example_store"
    using t2 h2(2-6) unfolding h2(9,10) by simp
  from f a s1 s2 s3 show ?thesis by blast
qed

section \<open>Authorization\<close>

text \<open>
  Claim C6 says that a requester who is not the creator of a stored post is turned away
  with the 401 error by \<^verbatim>\<open>editPost\<close> and by \<^verbatim>\<open>deletePost\<close>, the post staying as
  it was. \<^verbatim>\<open>editPost\<close> does so. \<^verbatim>\<open>deletePost\<close> compares the requester with
  \<^verbatim>\<open>filteredPost.creatorId.id\<close>, the populated creator: when the creator is a stored
  user the answer is the 401 error, and when \<^verbatim>\<open>populate\<close> finds no such user the read
  of \<^verbatim>\<open>.id\<close> on \<^verbatim>\<open>null\<close> throws a \<^verbatim>\<open>TypeError\<close> outside every \<^verbatim>\<open>try\<close>. What holds of
  the code, when the lookup call goes through: \<^verbatim>\<open>editPost\<close> on a validated request
  answers 401; \<^verbatim>\<open>deletePost\<close> answers 401 or throws, as the creator is stored or not;
  in every case the committed store is unchanged, so the post keeps all its fields and
  nothing is deleted.
\<close>

theorem non_owner_outcome:
  assumes "post_findById (pid req) (db w) = Some p" and "userId req \<noteq> creatorId p"
    and "calls_ok 1 w"
  shows "(valid req \<longrightarrow>
            fst (editPost e req w) = Inl not_your_post \<and>
            db (snd (editPost e req w)) = db w \<and>
            post_findById (pid req) (db (snd (editPost e req w))) = Some p) \<and>
         fst (deletePost req w) =
           (case user_findById (creatorId p) (db w) of
              None \<Rightarrow> Inl TypeError
            | Some u \<Rightarrow> Inl not_your_post) \<and>
         db (snd (deletePost req w)) = db w \<and>
         post_findById (pid req) (db (snd (deletePost req w))) = Some p"
proof -
  have "calls_ok (Suc 0) w" using assms(3) by simp
  note c = store_call_ok [OF this]
  have "user_id u \<noteq> userId req" if "user_findById (creatorId p) (db w) = Some u" for u
    using user_findById_id [OF that] assms(2) by simp
  then show ?thesis
    using assms(1,2) c [of "PostFindById (pid req)"] c [of "PostFindByIdPopulate (pid req)"]
    by (simp add: editPost_def deletePost_def split: option.splits)
qed

theorem non_owner_outcome_witness:
  "post_findById ''p3'' (db orphan_world) = Some orphan \<and> ''u2'' \<noteq> creatorId orphan \<and>
   user_findById (creatorId orphan) (db orphan_world) = None \<and>
   fst (editPost (example_env geocoder_up) (example_request ''u2'' ''p3'' ''5 Low St'')
          orphan_world) = Inl (HttpError ''This isn't your post!'' ''401'') \<and>
   fst (deletePost (example_request ''u2'' ''p3'' ''5 Low St'') orphan_world) = Inl TypeError \<and>
   db (snd (deletePost (example_request ''u2'' ''p3'' ''5 Low St'') orphan_world)) =
     db orphan_world \<and>
   post_findById ''p3'' (db (snd (deletePost (example_request ''u2'' ''p3'' ''5 Low St'')
          orphan_world))) = Some orphan"
proof -
  let ?r = "example_request ''u2'' ''p3'' ''5 Low St''"
  have f: "post_findById ''p3'' (db orphan_world) = Some orphan"
    "user_findById (creatorId orphan) (db orphan_world) = None"
    "''u2'' \<noteq> creatorId orphan"
    by (simp_all add: post_findById_def user_findById_def orphan_world_def orphan_def
        example_defs)
  have g: "valid ?r" "pid ?r = ''p3''" "userId ?r = ''u2''" "calls_ok 1 orphan_world"
    by (simp_all add: calls_ok_def orphan_world_def example_request_def)
  have h: "post_findById (pid ?r) (db orphan_world) = Some orphan"
    "userId ?r \<noteq> creatorId orphan"
    using f g by simp_all
  from non_owner_outcome [OF h g(4), of "example_env geocoder_up"] f g
  show ?thesis by (simp add: not_your_post_def)
qed

section \<open>The store after a committed session\<close>

lemma find_snoc:
  "find P (xs @ [x]) = (case find P xs of None \<Rightarrow> if P x then Some x else None | Some y \<Rightarrow> Some y)"
  by (induction xs) simp_all

lemma find_filter_other:
  "j \<noteq> k \<Longrightarrow> find (\<lambda>v. key v = j) (filter (\<lambda>v. key v \<noteq> k) xs) = find (\<lambda>v. key v = j) xs"
  by (induction xs) auto

lemma find_filter_same:
  "find (\<lambda>v. key v = k) (filter (\<lambda>v. key v \<noteq> k) xs) = None"
  by (induction xs) auto

lemma user_findById_user_update:
  "user_findById j (user_update u' s) =
     (if j = user_id u' then map_option (\<lambda>_. u') (user_findById j s) else user_findById j s)"
  by (simp add: user_findById_def user_update_def find_replace_same find_replace_other)

lemma post_findById_post_update:
  "post_findById j (post_update p' s) =
     (if j = post_id p' then map_option (\<lambda>_. p') (post_findById j s) else post_findById j s)"
  by (simp add: post_findById_def post_update_def find_replace_same find_replace_other)

lemma post_findById_user_update [simp]:
  "post_findById j (user_update u' s) = post_findById j s"
  by (simp add: post_findById_def user_update_def)

lemma user_findById_post_update [simp]:
  "user_findById j (post_update p' s) = user_findById j s"
  by (simp add: user_findById_def post_update_def)

lemma comment_findById_updates [simp]:
  "comment_findById j (post_update p' s) = comment_findById j s"
  "comment_findById j (user_update u' s) = comment_findById j s"
  by (simp_all add: comment_findById_def post_update_def user_update_def)

lemma user_findById_post_remove [simp]:
  "user_findById j (post_remove i s) = user_findById j s"
  by (simp add: user_findById_def post_remove_def)

lemma post_findById_post_remove:
  "post_findById j (post_remove i s) = (if j = i then None else post_findById j s)"
  by (simp add: post_findById_def post_remove_def find_filter_other find_filter_same)

lemma post_insert_Some:
  "post_insert p s = Some s1 \<Longrightarrow>
     post_findById (post_id p) s = None \<and> s1 = s\<lparr>PostModel := PostModel s @ [p]\<rparr>"
  by (auto simp: post_insert_def split: if_splits)

lemma comment_insert_Some:
  "comment_insert c s = Some s1 \<Longrightarrow>
     comment_findById (comment_id c) s = None \<and> s1 = s\<lparr>CommentModel := CommentModel s @ [c]\<rparr>"
  by (auto simp: comment_insert_def split: if_splits)

lemma post_findById_snoc:
  "post_findById j (s\<lparr>PostModel := PostModel s @ [p]\<rparr>) =
     (case post_findById j s of None \<Rightarrow> if post_id p = j then Some p else None
      | Some q \<Rightarrow> Some q)"
  by (simp add: post_findById_def find_snoc)

lemma user_findById_PostModel [simp]:
  "user_findById j (s\<lparr>PostModel := ps\<rparr>) = user_findById j s"
  by (simp add: user_findById_def)

lemma findById_CommentModel [simp]:
  "user_findById j (s\<lparr>CommentModel := cs\<rparr>) = user_findById j s"
  "post_findById j (s\<lparr>CommentModel := cs\<rparr>) = post_findById j s"
  by (simp_all add: user_findById_def post_findById_def)

lemma comment_findById_snoc:
  "comment_findById j (s\<lparr>CommentModel := CommentModel s @ [c]\<rparr>) =
     (case comment_findById j s of None \<Rightarrow> if comment_id c = j then Some c else None
      | Some q \<Rightarrow> Some q)"
  by (simp add: comment_findById_def find_snoc)

lemma createPost_transaction_Some:
  "createPost_transaction p usr w = (Some x, w') \<Longrightarrow>
     \<exists>u. usr = Some u \<and> post_findById (post_id p) (db w) = None \<and>
         db w' = user_update (u\<lparr>posts := posts u @ [post_id p]\<rparr>)
                   ((db w)\<lparr>PostModel := PostModel (db w) @ [p]\<rparr>)"
  by (auto simp: createPost_transaction_def Let_def
           dest!: store_call_db post_insert_Some
           split: prod.splits if_splits option.splits)

lemma deletePost_transaction_Some:
  "deletePost_transaction p u w = (Some x, w') \<Longrightarrow>
     db w' = user_update (u\<lparr>posts := pull (post_id p) (posts u)\<rparr>)
               (post_remove (post_id p) (db w))"
  by (auto simp: deletePost_transaction_def Let_def dest!: store_call_db
           split: prod.splits if_splits option.splits)

lemma createComment_transaction_Some:
  "createComment_transaction c usr pst w = (Some x, w') \<Longrightarrow>
     \<exists>u p. usr = Some u \<and> pst = Some p \<and> comment_findById (comment_id c) (db w) = None \<and>
       db w' = post_update (p\<lparr>post_comments := post_comments p @ [comment_id c]\<rparr>)
                 (user_update (u\<lparr>comments := comments u @ [comment_id c]\<rparr>)
                    ((db w)\<lparr>CommentModel := CommentModel (db w) @ [c]\<rparr>))"
  by (auto simp: createComment_transaction_def Let_def
           dest!: store_call_db comment_insert_Some
           split: prod.splits if_splits option.splits)


section \<open>Comment fan-out\<close>

lemma createComment_success:
  assumes "createComment e req w = (Inr c, w')"
  shows "\<exists>u p. user_findById (userId req) (db w) = Some u \<and>
           post_findById (body_postId req) (db w) = Some p \<and>
           comment_id c = newId e \<and>
           comment_findById (comment_id c) (db w) = None \<and>
           db w' = post_update (p\<lparr>post_comments := post_comments p @ [comment_id c]\<rparr>)
                     (user_update (u\<lparr>comments := comments u @ [comment_id c]\<rparr>)
                        ((db w)\<lparr>CommentModel := CommentModel (db w) @ [c]\<rparr>))"
  using assms
  by (auto simp: createComment_def Let_def
           dest!: store_call_db createComment_transaction_Some
           split: prod.splits if_splits option.splits)

lemma comment_refs_fresh:
  assumes "comment_refs_exist s" and "comment_findById i s = None"
  shows "user_findById j s = Some u \<Longrightarrow> i \<notin> set (comments u)"
    and "post_findById k s = Some p \<Longrightarrow> i \<notin> set (post_comments p)"
proof -
  show "i \<notin> set (comments u)" if "user_findById j s = Some u"
    using assms user_findById_id [OF that]
    by (fastforce simp: comment_refs_exist_def list_all_iff)
  show "i \<notin> set (post_comments p)" if "post_findById k s = Some p"
    using assms post_findById_id [OF that]
    by (fastforce simp: comment_refs_exist_def list_all_iff)
qed

text \<open>
  Claim C8. After a successful \<^verbatim>\<open>createComment\<close> by user \<open>u\<close> on post \<open>p\<close>, the stored
  user's comment list is its former list with the new comment's identifier appended,
  and so is the stored post's comment list; the comment itself is stored. In a store
  whose comment lists only name stored comments, the new identifier therefore occurs
  exactly once in each of the two lists.
\<close>

theorem createComment_fan_out:
  assumes "createComment e req w = (Inr c, w')" and "comment_refs_exist (db w)"
  shows "\<exists>u p. user_findById (userId req) (db w) = Some u \<and>
           post_findById (body_postId req) (db w) = Some p \<and>
           comment_findById (comment_id c) (db w') = Some c \<and>
           user_findById (userId req) (db w') =
             Some (u\<lparr>comments := comments u @ [comment_id c]\<rparr>) \<and>
           post_findById (body_postId req) (db w') =
             Some (p\<lparr>post_comments := post_comments p @ [comment_id c]\<rparr>) \<and>
           count_list (comments u @ [comment_id c]) (comment_id c) = 1 \<and>
           count_list (post_comments p @ [comment_id c]) (comment_id c) = 1"
proof -
  from createComment_success [OF assms(1)] obtain u p where
    u: "user_findById (userId req) (db w) = Some u" and
    p: "post_findById (body_postId req) (db w) = Some p" and
    n: "comment_findById (comment_id c) (db w) = None" and
    d: "db w' = post_update (p\<lparr>post_comments := post_comments p @ [comment_id c]\<rparr>)
                  (user_update (u\<lparr>comments := comments u @ [comment_id c]\<rparr>)
                     ((db w)\<lparr>CommentModel := CommentModel (db w) @ [c]\<rparr>))"
    by blast
  have iu: "user_id u = userId req" using u by (simp add: user_findById_id)
  have ip: "post_id p = body_postId req" using p by (simp add: post_findById_id)
  have "comment_findById (comment_id c) (db w') = Some c"
    using n by (simp add: d comment_findById_snoc)
  moreover have "user_findById (userId req) (db w') =
                   Some (u\<lparr>comments := comments u @ [comment_id c]\<rparr>)"
    using u iu by (simp add: d user_findById_user_update)
  moreover have "post_findById (body_postId req) (db w') =
                   Some (p\<lparr>post_comments := post_comments p @ [comment_id c]\<rparr>)"
    using p ip by (simp add: d post_findById_post_update)
  moreover have "count_list (comments u @ [comment_id c]) (comment_id c) = 1"
    using comment_refs_fresh(1) [OF assms(2) n u] by (simp add: count_list_0_iff)
  moreover have "count_list (post_comments p @ [comment_id c]) (comment_id c) = 1"
    using comment_refs_fresh(2) [OF assms(2) n p] by (simp add: count_list_0_iff)
  ultimately show ?thesis using u p by blast
qed

theorem createComment_fan_out_witness:
  "comment_refs_exist example_store \<and>
   fst (createComment (example_env geocoder_up) (example_request ''u2'' ''p1'' ''5 Low St'')
          (example_world [])) =
     Inr \<lparr>comment_id = ''n1'', comment_creatorId = ''u2'', comment_createDate = 3000,
          comment_text = ''Nice'', comment_post = ''p1''\<rparr> \<and>
   user_findById ''u2'' (db (snd (createComment (example_env geocoder_up)
          (example_request ''u2'' ''p1'' ''5 Low St'') (example_world [])))) =
     Some (bob\<lparr>comments := [''n1'']\<rparr>) \<and>
   post_findById ''p1'' (db (snd (createComment (example_env geocoder_up)
          (example_request ''u2'' ''p1'' ''5 Low St'') (example_world [])))) =
     Some (cabin\<lparr>post_comments := [''n1'']\<rparr>)"
proof -
  let ?e = "example_env geocoder_up"
  let ?r = "example_request ''u2'' ''p1'' ''5 Low St''"
  let ?c = "\<lparr>comment_id = ''n1'', comment_creatorId = ''u2'', comment_createDate = 3000,
             comment_text = ''Nice'', comment_post = ''p1''\<rparr>"
  have a: "fst (createComment ?e ?r (example_world [])) = Inr ?c"
    by (simp add: createComment_def createComment_transaction_def store_call_def
        comment_insert_def comment_findById_def
        user_findById_def post_findById_def Let_def example_defs)
  then have b: "createComment ?e ?r (example_world []) =
                  (Inr ?c, snd (createComment ?e ?r (example_world [])))"
    by (metis prod.collapse)
  have i: "comment_refs_exist example_store"
    by (simp add: comment_refs_exist_def example_defs)
  then have j: "comment_refs_exist (db (example_world []))"
    by (simp add: example_world_def)
  have f: "user_findById (userId ?r) (db (example_world [])) = Some bob"
    "post_findById (body_postId ?r) (db (example_world [])) = Some cabin"
    "userId ?r = ''u2''" "body_postId ?r = ''p1''" "comment_id ?c = ''n1''"
    "comments bob = []" "post_comments cabin = []"
    by (simp_all add: user_findById_def post_findById_def example_defs)
  from createComment_fan_out [OF b j] obtain u p where
    "user_findById (userId ?r) (db (example_world [])) = Some u"
    "post_findById (body_postId ?r) (db (example_world [])) = Some p"
    "user_findById (userId ?r) (db (snd (createComment ?e ?r (example_world [])))) =
       Some (u\<lparr>comments := comments u @ [comment_id ?c]\<rparr>)"
    "post_findById (body_postId ?r) (db (snd (createComment ?e ?r (example_world [])))) =
       Some (p\<lparr>post_comments := post_comments p @ [comment_id ?c]\<rparr>)"
    by blast
  with f have
    "user_findById ''u2'' (db (snd (createComment ?e ?r (example_world [])))) =
       Some (bob\<lparr>comments := [''n1'']\<rparr>)"
    "post_findById ''p1'' (db (snd (createComment ?e ?r (example_world [])))) =
       Some (cabin\<lparr>post_comments := [''n1'']\<rparr>)"
    by simp_all
  with a i show ?thesis by blast
qed

section \<open>Back-references between users and posts\<close>

lemma case_option_False_iff:
  "(case x of None \<Rightarrow> False | Some p \<Rightarrow> Q p) \<longleftrightarrow> (\<exists>p. x = Some p \<and> Q p)"
  by (cases x) simp_all

lemma backrefs_consistent_iff:
  "backrefs_consistent s \<longleftrightarrow>
     (\<forall>u \<in> set (UserModel s). \<forall>i \<in> set (posts u).
        \<exists>p. post_findById i s = Some p \<and> creatorId p = user_id u) \<and>
     (\<forall>p \<in> set (PostModel s).
        \<exists>u. user_findById (creatorId p) s = Some u \<and> post_id p \<in> set (posts u))"
  by (simp only: backrefs_consistent_def list_all_iff case_option_False_iff)

lemma createPost_success:
  assumes "createPost e req w = (Inr p, w')"
  shows "\<exists>u. user_findById (userId req) (db w) = Some u \<and>
           post_findById (post_id p) (db w) = None \<and>
           post_id p = newId e \<and> creatorId p = userId req \<and>
           db w' = user_update (u\<lparr>posts := posts u @ [post_id p]\<rparr>)
                     ((db w)\<lparr>PostModel := PostModel (db w) @ [p]\<rparr>)"
  using assms
  by (auto simp: createPost_def Let_def
           dest!: store_call_db createPost_transaction_Some
           split: prod.splits if_splits option.splits sum.splits)

lemma deletePost_success:
  assumes "deletePost req w = (Inr m, w')"
  shows "\<exists>p u. post_findById (pid req) (db w) = Some p \<and>
           user_findById (creatorId p) (db w) = Some u \<and> user_id u = userId req \<and>
           db w' = user_update (u\<lparr>posts := pull (pid req) (posts u)\<rparr>)
                     (post_remove (pid req) (db w))"
proof -
  have "post_findById (pid req) (db w) = Some p \<Longrightarrow> post_id p = pid req" for p
    by (simp add: post_findById_id)
  with assms show ?thesis
    by (auto simp: deletePost_def Let_def
           dest!: store_call_db deletePost_transaction_Some
           split: prod.splits if_splits option.splits)
qed

lemma backrefs_createPost:
  assumes inv: "backrefs_consistent s"
    and u: "user_findById uid s = Some u"
    and fresh: "post_findById (post_id p) s = None"
    and c: "creatorId p = uid"
  shows "backrefs_consistent
           (user_update (u\<lparr>posts := posts u @ [post_id p]\<rparr>)
              (s\<lparr>PostModel := PostModel s @ [p]\<rparr>))"
proof -
  let ?u = "u\<lparr>posts := posts u @ [post_id p]\<rparr>"
  let ?s = "user_update ?u (s\<lparr>PostModel := PostModel s @ [p]\<rparr>)"
  from u have iu: "user_id u = uid" and mu: "u \<in> set (UserModel s)"
    by (simp_all add: user_findById_id)
  have pf: "post_findById i ?s = Some q" if "post_findById i s = Some q" for i q
    using that by (simp add: post_findById_snoc)
  have pn: "post_findById (post_id p) ?s = Some p"
    using fresh by (simp add: post_findById_snoc)
  have uf: "user_findById j ?s = (if j = uid then Some ?u else user_findById j s)" for j
    using u iu by (simp add: user_findById_user_update)
  have users: "v = ?u \<or> (v \<in> set (UserModel s) \<and> user_id v \<noteq> uid)"
    if "v \<in> set (UserModel ?s)" for v
    using that iu by (auto simp: user_update_def)
  have posts: "q = p \<or> q \<in> set (PostModel s)" if "q \<in> set (PostModel ?s)" for q
    using that by (auto simp: user_update_def)
  have 1: "\<exists>q. post_findById i ?s = Some q \<and> creatorId q = user_id v"
    if v: "v \<in> set (UserModel ?s)" and i: "i \<in> set (posts v)" for v i
  proof -
    from users [OF v] show ?thesis
    proof
      assume e: "v = ?u"
      show ?thesis
      proof (cases "i = post_id p")
        case True
        with pn c iu e show ?thesis by simp
      next
        case False
        with i e have "i \<in> set (posts u)" by simp
        with inv mu obtain q where "post_findById i s = Some q" "creatorId q = user_id u"
          unfolding backrefs_consistent_iff by blast
        with pf e show ?thesis by simp
      qed
    next
      assume "v \<in> set (UserModel s) \<and> user_id v \<noteq> uid"
      with inv i obtain q where "post_findById i s = Some q" "creatorId q = user_id v"
        unfolding backrefs_consistent_iff by blast
      with pf show ?thesis by simp
    qed
  qed
  have 2: "\<exists>v. user_findById (creatorId q) ?s = Some v \<and> post_id q \<in> set (posts v)"
    if q: "q \<in> set (PostModel ?s)" for q
  proof -
    from posts [OF q] show ?thesis
    proof
      assume "q = p"
      with c uf show ?thesis by simp
    next
      assume "q \<in> set (PostModel s)"
      with inv obtain v where v: "user_findById (creatorId q) s = Some v"
        "post_id q \<in> set (posts v)"
        unfolding backrefs_consistent_iff by blast
      show ?thesis
      proof (cases "creatorId q = uid")
        case True
        with v u have "v = u" by simp
        with v True uf show ?thesis by simp
      next
        case False
        with v uf show ?thesis by simp
      qed
    qed
  qed
  from 1 2 show ?thesis unfolding backrefs_consistent_iff by blast
qed

lemma backrefs_deletePost:
  assumes inv: "backrefs_consistent s"
    and p: "post_findById i s = Some p"
    and u: "user_findById (creatorId p) s = Some u"
  shows "backrefs_consistent
           (user_update (u\<lparr>posts := pull i (posts u)\<rparr>) (post_remove i s))"
proof -
  let ?u = "u\<lparr>posts := pull i (posts u)\<rparr>"
  let ?s = "user_update ?u (post_remove i s)"
  let ?uid = "creatorId p"
  from u have iu: "user_id u = ?uid" and mu: "u \<in> set (UserModel s)"
    by (simp_all add: user_findById_id)
  have pf: "post_findById j ?s = (if j = i then None else post_findById j s)" for j
    by (simp add: post_findById_post_remove)
  have uf: "user_findById j ?s = (if j = ?uid then Some ?u else user_findById j s)" for j
    using u iu by (simp add: user_findById_user_update)
  have users: "v = ?u \<or> (v \<in> set (UserModel s) \<and> user_id v \<noteq> ?uid)"
    if "v \<in> set (UserModel ?s)" for v
    using that iu by (auto simp: user_update_def post_remove_def)
  have posts: "q \<in> set (PostModel s) \<and> post_id q \<noteq> i" if "q \<in> set (PostModel ?s)" for q
    using that by (auto simp: user_update_def post_remove_def)
  have 1: "\<exists>q. post_findById j ?s = Some q \<and> creatorId q = user_id v"
    if v: "v \<in> set (UserModel ?s)" and j: "j \<in> set (posts v)" for v j
  proof -
    from users [OF v] show ?thesis
    proof
      assume e: "v = ?u"
      with j have ji: "j \<noteq> i" and "j \<in> set (posts u)" by (simp_all add: pull_def)
      with inv mu obtain q where "post_findById j s = Some q" "creatorId q = user_id u"
        unfolding backrefs_consistent_iff by blast
      with pf ji e show ?thesis by simp
    next
      assume a: "v \<in> set (UserModel s) \<and> user_id v \<noteq> ?uid"
      with inv j obtain q where q: "post_findById j s = Some q" "creatorId q = user_id v"
        unfolding backrefs_consistent_iff by blast
      with p a have "j \<noteq> i" by auto
      with pf q show ?thesis by simp
    qed
  qed
  have 2: "\<exists>v. user_findById (creatorId q) ?s = Some v \<and> post_id q \<in> set (posts v)"
    if q: "q \<in> set (PostModel ?s)" for q
  proof -
    from posts [OF q] have m: "q \<in> set (PostModel s)" and ne: "post_id q \<noteq> i" by simp_all
    with inv obtain v where v: "user_findById (creatorId q) s = Some v"
      "post_id q \<in> set (posts v)"
      unfolding backrefs_consistent_iff by blast
    show ?thesis
    proof (cases "creatorId q = ?uid")
      case True
      with v u have "v = u" by simp
      with v True uf ne show ?thesis by (simp add: pull_def)
    next
      case False
      with v uf show ?thesis by simp
    qed
  qed
  from 1 2 show ?thesis unfolding backrefs_consistent_iff by blast
qed


text \<open>
  Claim C9. After a successful \<^verbatim>\<open>createPost\<close>, the stored owner's post list is its
  former list with the new post's identifier appended at the end, and the new post is
  stored with that owner as creator. After a successful \<^verbatim>\<open>deletePost\<close>, the post is
  gone from the store and its identifier from the owner's post list. Both handlers
  preserve back-reference consistency between users and posts.
\<close>

theorem post_backrefs_maintained:
  "(createPost e req w = (Inr p, w') \<longrightarrow>
      (\<exists>u. user_findById (userId req) (db w) = Some u \<and>
           user_findById (userId req) (db w') =
             Some (u\<lparr>posts := posts u @ [post_id p]\<rparr>)) \<and>
      post_findById (post_id p) (db w') = Some p \<and> creatorId p = userId req \<and>
      (backrefs_consistent (db w) \<longrightarrow> backrefs_consistent (db w'))) \<and>
   (deletePost req w = (Inr m, w'') \<longrightarrow>
      (\<exists>u. user_findById (userId req) (db w) = Some u \<and>
           user_findById (userId req) (db w'') =
             Some (u\<lparr>posts := pull (pid req) (posts u)\<rparr>) \<and>
           pid req \<notin> set (pull (pid req) (posts u))) \<and>
      post_findById (pid req) (db w'') = None \<and>
      (backrefs_consistent (db w) \<longrightarrow> backrefs_consistent (db w'')))"
proof (intro conjI impI)
  assume "createPost e req w = (Inr p, w')"
  from createPost_success [OF this] obtain u where
    u: "user_findById (userId req) (db w) = Some u" and
    n: "post_findById (post_id p) (db w) = None" and
    c: "creatorId p = userId req" and
    d: "db w' = user_update (u\<lparr>posts := posts u @ [post_id p]\<rparr>)
                  ((db w)\<lparr>PostModel := PostModel (db w) @ [p]\<rparr>)"
    by blast
  have iu: "user_id u = userId req" using u by (simp add: user_findById_id)
  have "user_findById (userId req) (db w') = Some (u\<lparr>posts := posts u @ [post_id p]\<rparr>)"
    using u iu by (simp add: d user_findById_user_update)
  with u show "\<exists>u. user_findById (userId req) (db w) = Some u \<and>
           user_findById (userId req) (db w') =
             Some (u\<lparr>posts := posts u @ [post_id p]\<rparr>)"
    by blast
  show "post_findById (post_id p) (db w') = Some p"
    using n by (simp add: d post_findById_snoc)
  show "creatorId p = userId req" by (rule c)
  show "backrefs_consistent (db w')" if "backrefs_consistent (db w)"
    unfolding d by (rule backrefs_createPost [OF that u n c])
next
  assume "deletePost req w = (Inr m, w'')"
  from deletePost_success [OF this] obtain q u where
    q: "post_findById (pid req) (db w) = Some q" and
    u: "user_findById (creatorId q) (db w) = Some u" and
    iu: "user_id u = userId req" and
    d: "db w'' = user_update (u\<lparr>posts := pull (pid req) (posts u)\<rparr>)
                   (post_remove (pid req) (db w))"
    by blast
  from u have cu: "creatorId q = userId req" using iu by (simp add: user_findById_id)
  have "user_findById (userId req) (db w'') = Some (u\<lparr>posts := pull (pid req) (posts u)\<rparr>)"
    using u iu cu by (simp add: d user_findById_user_update)
  moreover have "pid req \<notin> set (pull (pid req) (posts u))"
    by (simp add: pull_def)
  ultimately show "\<exists>u. user_findById (userId req) (db w) = Some u \<and>
           user_findById (userId req) (db w'') =
             Some (u\<lparr>posts := pull (pid req) (posts u)\<rparr>) \<and>
           pid req \<notin> set (pull (pid req) (posts u))"
    using u cu by auto
  show "post_findById (pid req) (db w'') = None"
    by (simp add: d post_findById_post_remove)
  show "backrefs_consistent (db w'')" if "backrefs_consistent (db w)"
    unfolding d by (rule backrefs_deletePost [OF that q u])
qed

theorem post_backrefs_maintained_witness:
  "backrefs_consistent example_store \<and>
   fst (createPost (example_env geocoder_up) (example_request ''u2'' ''p1'' ''5 Low St'')
          (example_world [])) =
     Inr \<lparr>post_id = ''n1'', title = ''Hut'', description = ''Wood'', creatorId = ''u2'',
          address = ''5 Low St'', coordinates = \<lparr>lat = 42, lng = - 71\<rparr>,
          createDate = 3000, image_loc = None, post_comments = []\<rparr> \<and>
   user_findById ''u2'' (db (snd (createPost (example_env geocoder_up)
          (example_request ''u2'' ''p1'' ''5 Low St'') (example_world [])))) =
     Some (bob\<lparr>posts := [''n1'']\<rparr>) \<and>
   backrefs_consistent (db (snd (createPost (example_env geocoder_up)
          (example_request ''u2'' ''p1'' ''5 Low St'') (example_world [])))) \<and>
   fst (deletePost (example_request ''u1'' ''p1'' ''5 Low St'') (example_world [])) =
     Inr ''deleted post'' \<and>
   user_findById ''u1'' (db (snd (deletePost (example_request ''u1'' ''p1'' ''5 Low St'')
          (example_world [])))) = Some (alice\<lparr>posts := [''p2'']\<rparr>) \<and>
   post_findById ''p1'' (db (snd (deletePost (example_request ''u1'' ''p1'' ''5 Low St'')
          (example_world [])))) = None \<and>
   backrefs_consistent (db (snd (deletePost (example_request ''u1'' ''p1'' ''5 Low St'')
          (example_world []))))"
proof -
  let ?e = "example_env geocoder_up"
  let ?r = "example_request ''u2'' ''p1'' ''5 Low St''"
  let ?q = "example_request ''u1'' ''p1'' ''5 Low St''"
  let ?p = "\<lparr>post_id = ''n1'', title = ''Hut'', description = ''Wood'', creatorId = ''u2'',
             address = ''5 Low St'', coordinates = \<lparr>lat = 42, lng = - 71\<rparr>,
             createDate = 3000, image_loc = None, post_comments = []\<rparr>"
  have i: "backrefs_consistent example_store"
    by (simp add: backrefs_consistent_def user_findById_def post_findById_def example_defs)
  have a: "fst (createPost ?e ?r (example_world [])) = Inr ?p"
    by (simp add: createPost_def createPost_transaction_def store_call_def post_insert_def
        user_findById_def post_findById_def Let_def example_defs)
  then have a': "createPost ?e ?r (example_world []) =
                   (Inr ?p, snd (createPost ?e ?r (example_world [])))"
    by (metis prod.collapse)
  have b: "fst (deletePost ?q (example_world [])) = Inr ''deleted post''"
    by (simp add: deletePost_def deletePost_transaction_def store_call_def
        user_findById_def post_findById_def Let_def example_defs)
  then have b': "deletePost ?q (example_world []) =
                   (Inr ''deleted post'', snd (deletePost ?q (example_world [])))"
    by (metis prod.collapse)
  have f: "user_findById (userId ?r) (db (example_world [])) = Some bob"
    "user_findById (userId ?q) (db (example_world [])) = Some alice"
    "userId ?r = ''u2''" "userId ?q = ''u1''" "pid ?q = ''p1''" "post_id ?p = ''n1''"
    "posts bob @ [''n1''] = [''n1'']" "pull ''p1'' (posts alice) = [''p2'']"
    "db (example_world []) = example_store"
    by (simp_all add: user_findById_def pull_def example_defs)
  note t = post_backrefs_maintained [of ?e ?r "example_world []" ?p
      "snd (createPost ?e ?r (example_world []))"]
  note t' = post_backrefs_maintained [of ?e ?q "example_world []" _ _ "''deleted post''"
      "snd (deletePost ?q (example_world []))"]
  from t a' have
    c: "(\<exists>u. user_findById (userId ?r) (db (example_world [])) = Some u \<and>
           user_findById (userId ?r) (db (snd (createPost ?e ?r (example_world [])))) =
             Some (u\<lparr>posts := posts u @ [post_id ?p]\<rparr>))"
    and c2: "backrefs_consistent (db (example_world [])) \<longrightarrow>
             backrefs_consistent (db (snd (createPost ?e ?r (example_world []))))"
    by blast+
  from t' b' have
    d: "(\<exists>u. user_findById (userId ?q) (db (example_world [])) = Some u \<and>
           user_findById (userId ?q) (db (snd (deletePost ?q (example_world [])))) =
             Some (u\<lparr>posts := pull (pid ?q) (posts u)\<rparr>))"
    and d2: "post_findById (pid ?q) (db (snd (deletePost ?q (example_world [])))) = None"
    and d3: "backrefs_consistent (db (example_world [])) \<longrightarrow>
             backrefs_consistent (db (snd (deletePost ?q (example_world []))))"
    by blast+
  from c f have c': "user_findById ''u2'' (db (snd (createPost ?e ?r (example_world [])))) =
                       Some (bob\<lparr>posts := [''n1'']\<rparr>)"
    by auto
  from d f have d': "user_findById ''u1'' (db (snd (deletePost ?q (example_world [])))) =
                       Some (alice\<lparr>posts := [''p2'']\<rparr>)"
    by auto
  from i a b c' d' c2 d2 d3 f(5,9) show ?thesis by simp
qed

end
